theory Spec2Isabelle
  imports Main
begin

section \<open>The color package: paints, styles and brushes\<close>

text \<open>
  A shallow embedding of \<^verbatim>\<open>color.go\<close>. A Go \<^verbatim>\<open>string\<close> is a sequence of bytes, so a
  \<^verbatim>\<open>Paint\<close> is a \<^typ>\<open>string\<close> (a list of 8-bit characters). The only runtime error the
  package can raise is the index panic of \<^verbatim>\<open>bg[len(bg)-1]\<close>; it is a value of the
  result type \<open>panic + 'a\<close>.
\<close>

subsection \<open>Constants\<close>

definition pre :: string where
  "pre = [CHR 0x1B, CHR ''['']"

definition post :: string where
  "post = []"

definition reset :: string where
  "reset = CHR 0x1B # ''[0m''"

type_synonym Paint = string

definition BlackPaint :: Paint where "BlackPaint = ''0;30''"
definition DarkRedPaint :: Paint where "DarkRedPaint = ''0;31''"
definition DarkGreenPaint :: Paint where "DarkGreenPaint = ''0;32''"
definition DarkYellowPaint :: Paint where "DarkYellowPaint = ''0;33''"
definition DarkBluePaint :: Paint where "DarkBluePaint = ''0;34''"
definition DarkPurplePaint :: Paint where "DarkPurplePaint = ''0;35''"
definition DarkCyanPaint :: Paint where "DarkCyanPaint = ''0;36''"
definition LightGrayPaint :: Paint where "LightGrayPaint = ''0;37''"

definition DarkGrayPaint :: Paint where "DarkGrayPaint = ''1;30''"
definition RedPaint :: Paint where "RedPaint = ''1;31''"
definition GreenPaint :: Paint where "GreenPaint = ''1;32''"
definition YellowPaint :: Paint where "YellowPaint = ''1;33''"
definition BluePaint :: Paint where "BluePaint = ''1;34''"
definition PurplePaint :: Paint where "PurplePaint = ''1;35''"
definition CyanPaint :: Paint where "CyanPaint = ''1;36''"
definition WhitePaint :: Paint where "WhitePaint = ''1;37''"

definition nilPaint :: Paint where "nilPaint = ''nil''"

text \<open>The sixteen exported color constants, in the order of their declaration.\<close>

definition paints :: "Paint list" where
  "paints =
     [BlackPaint, DarkRedPaint, DarkGreenPaint, DarkYellowPaint,
      DarkBluePaint, DarkPurplePaint, DarkCyanPaint, LightGrayPaint,
      DarkGrayPaint, RedPaint, GreenPaint, YellowPaint,
      BluePaint, PurplePaint, CyanPaint, WhitePaint]"

subsection \<open>Runtime errors and Go's byte-to-string conversion\<close>

datatype panic = IndexOutOfRange

text \<open>
  \<^verbatim>\<open>string(b)\<close> for a \<^verbatim>\<open>byte\<close> \<open>b\<close> is Go's integer-to-string conversion: the UTF-8
  encoding of the code point numbered \<open>b\<close>. Below 0x80 that is the byte itself; from
  0x80 to 0xFF it is the two bytes \<open>110000xx 10xxxxxx\<close>.
\<close>

definition string_of_byte :: "char \<Rightarrow> string" where
  "string_of_byte c =
     (let n = (of_char c :: nat)
      in if n < 128 then [c]
         else [char_of (192 + n div 64), char_of (128 + n mod 64)])"

subsection \<open>Computing the escape code\<close>

text \<open>
  \<^verbatim>\<open>computeColorCode(bg, fg)\<close>. The index \<^verbatim>\<open>len(bg)-1\<close> is \<open>-1\<close> for the empty string,
  where Go panics; the branch is written out.
\<close>

definition computeColorCode :: "Paint \<Rightarrow> Paint \<Rightarrow> panic + string" where
  "computeColorCode b f =
     (if b = nilPaint then Inr (pre @ f @ ''m'' @ post)
      else if length b = 0 then Inl IndexOutOfRange
      else
        let bgColor = b ! (length b - 1);
            back = pre @ ''4'' @ string_of_byte bgColor @ ''m'' @ post;
            front = pre @ f @ ''m'' @ post
        in Inr (back @ front))"

subsection \<open>Styles and brushes\<close>

type_synonym Brush = "string \<Rightarrow> string"

record Style =
  bg :: Paint
  fg :: Paint
  code :: string

definition NewStyle :: "Paint \<Rightarrow> Paint \<Rightarrow> panic + Style" where
  "NewStyle background foreground =
     (case computeColorCode background foreground of
        Inl e \<Rightarrow> Inl e
      | Inr c \<Rightarrow> Inr \<lparr>bg = background, fg = foreground, code = c\<rparr>)"

definition Brush :: "Style \<Rightarrow> Brush" where
  "Brush s = (\<lambda>text. code s @ text @ reset)"

definition NewBrush :: "Paint \<Rightarrow> Paint \<Rightarrow> panic + Brush" where
  "NewBrush background foreground =
     (case NewStyle background foreground of
        Inl e \<Rightarrow> Inl e
      | Inr s \<Rightarrow> Inr (Brush s))"

text \<open>
  The bodies of the two updaters, statement by statement, over a frame holding the
  receiver \<open>s\<close> (a copy of the caller's value: the receiver is passed by value) and the
  local \<open>newS\<close>. A struct assignment copies; the field updates touch \<open>newS\<close> only.
\<close>

record frame =
  s_var :: Style
  newS_var :: Style

definition WithBackground_body :: "Style \<Rightarrow> Paint \<Rightarrow> panic + frame" where
  "WithBackground_body s color =
     (let f0 = \<lparr>s_var = s, newS_var = s\<rparr>;
          f1 = f0\<lparr>newS_var := (newS_var f0)\<lparr>bg := color\<rparr>\<rparr>
      in case computeColorCode (bg (newS_var f1)) (fg (newS_var f1)) of
           Inl e \<Rightarrow> Inl e
         | Inr c \<Rightarrow> Inr (f1\<lparr>newS_var := (newS_var f1)\<lparr>code := c\<rparr>\<rparr>))"

definition WithBackground :: "Style \<Rightarrow> Paint \<Rightarrow> panic + Style" where
  "WithBackground s color =
     (case WithBackground_body s color of
        Inl e \<Rightarrow> Inl e
      | Inr f \<Rightarrow> Inr (newS_var f))"

definition WithForeground_body :: "Style \<Rightarrow> Paint \<Rightarrow> panic + frame" where
  "WithForeground_body s color =
     (let f0 = \<lparr>s_var = s, newS_var = s\<rparr>;
          f1 = f0\<lparr>newS_var := (newS_var f0)\<lparr>fg := color\<rparr>\<rparr>
      in case computeColorCode (bg (newS_var f1)) (fg (newS_var f1)) of
           Inl e \<Rightarrow> Inl e
         | Inr c \<Rightarrow> Inr (f1\<lparr>newS_var := (newS_var f1)\<lparr>code := c\<rparr>\<rparr>))"

definition WithForeground :: "Style \<Rightarrow> Paint \<Rightarrow> panic + Style" where
  "WithForeground s color =
     (case WithForeground_body s color of
        Inl e \<Rightarrow> Inl e
      | Inr f \<Rightarrow> Inr (newS_var f))"

text \<open>
  The call \<^verbatim>\<open>b(text)\<close> of a brush obtained from an expression that may have panicked.
\<close>

definition paint :: "panic + Brush \<Rightarrow> string \<Rightarrow> panic + string" where
  "paint r text = (case r of Inl e \<Rightarrow> Inl e | Inr b \<Rightarrow> Inr (b text))"

subsection \<open>The convenience brushes\<close>

definition Black :: "panic + Brush" where "Black = NewBrush WhitePaint BlackPaint"
definition White :: "panic + Brush" where "White = NewBrush DarkGrayPaint WhitePaint"
definition LightGray :: "panic + Brush" where "LightGray = NewBrush nilPaint LightGrayPaint"

definition Blue :: "panic + Brush" where "Blue = NewBrush nilPaint BluePaint"
definition Cyan :: "panic + Brush" where "Cyan = NewBrush nilPaint CyanPaint"
definition Green :: "panic + Brush" where "Green = NewBrush nilPaint GreenPaint"
definition Purple :: "panic + Brush" where "Purple = NewBrush nilPaint PurplePaint"
definition Red :: "panic + Brush" where "Red = NewBrush nilPaint RedPaint"
definition Yellow :: "panic + Brush" where "Yellow = NewBrush nilPaint YellowPaint"

definition DarkBlue :: "panic + Brush" where "DarkBlue = NewBrush nilPaint DarkBluePaint"
definition DarkCyan :: "panic + Brush" where "DarkCyan = NewBrush nilPaint DarkCyanPaint"
definition DarkGray :: "panic + Brush" where "DarkGray = NewBrush nilPaint DarkGrayPaint"
definition DarkGreen :: "panic + Brush" where "DarkGreen = NewBrush nilPaint DarkGreenPaint"
definition DarkPurple :: "panic + Brush" where "DarkPurple = NewBrush nilPaint DarkPurplePaint"
definition DarkRed :: "panic + Brush" where "DarkRed = NewBrush nilPaint DarkRedPaint"
definition DarkYellow :: "panic + Brush" where "DarkYellow = NewBrush nilPaint DarkYellowPaint"

subsection \<open>Styles reachable through the public interface\<close>

inductive reachable :: "Style \<Rightarrow> bool" where
  new: "NewStyle background foreground = Inr s \<Longrightarrow> reachable s"
| with_bg: "reachable s \<Longrightarrow> WithBackground s color = Inr t \<Longrightarrow> reachable t"
| with_fg: "reachable s \<Longrightarrow> WithForeground s color = Inr t \<Longrightarrow> reachable t"

subsection \<open>Reading escape sequences\<close>

text \<open>
  An SGR escape sequence is \<open>ESC [ params m\<close>, the parameters a non-empty run of digits
  and semicolons. \<open>split_sgr\<close> reads a string as a succession of such sequences and
  returns them in order, or \<open>None\<close> when the string is not one.
\<close>

definition is_param :: "char \<Rightarrow> bool" where
  "is_param c = (c \<in> set ''0123456789;'')"

function split_sgr :: "string \<Rightarrow> string list option" where
  "split_sgr [] = Some []"
| "split_sgr [c] = None"
| "split_sgr (c # d # ds) =
     (if c = CHR 0x1B \<and> d = CHR ''['' \<and> takeWhile is_param ds \<noteq> [] then
        (case dropWhile is_param ds of
           [] \<Rightarrow> None
         | m # rest \<Rightarrow>
             if m = CHR ''m'' then
               (case split_sgr rest of
                  None \<Rightarrow> None
                | Some qs \<Rightarrow> Some ((c # d # takeWhile is_param ds @ [m]) # qs))
             else None)
      else None)"
  by pat_completeness auto
termination
proof (relation "measure length")
  show "wf (measure length)" by simp
next
  fix c d :: char and ds :: string and m :: char and rest :: string
  assume "dropWhile is_param ds = m # rest"
  then have "length rest < length (dropWhile is_param ds)" by simp
  also have "\<dots> \<le> length ds" by (rule length_dropWhile_le)
  finally show "(rest, c # d # ds) \<in> measure length" by simp
qed

text \<open>The parameters of a sequence select a background when they start with \<open>4\<close>.\<close>

definition is_background_seq :: "string \<Rightarrow> bool" where
  "is_background_seq q = (take 3 q = pre @ ''4'')"

subsection \<open>Decimal numerals\<close>

text \<open>The decimal notation of a natural number, to state what a code string spells.\<close>

definition digit :: "nat \<Rightarrow> char" where
  "digit n = ''0123456789'' ! n"

function decimal :: "nat \<Rightarrow> string" where
  "decimal n = (if n < 10 then [digit n] else decimal (n div 10) @ [digit (n mod 10)])"
  by pat_completeness auto
termination
  by (relation "measure id") auto

declare decimal.simps [simp del]

section \<open>Basic facts\<close>

lemma nilPaint_nonempty: "nilPaint \<noteq> []"
  by (simp add: nilPaint_def)

lemma computeColorCode_sentinel: "computeColorCode nilPaint f = Inr (pre @ f @ ''m'')"
  by (simp add: computeColorCode_def post_def)

lemma computeColorCode_empty: "computeColorCode [] f = Inl IndexOutOfRange"
  by (simp add: computeColorCode_def nilPaint_def)

lemma computeColorCode_nonempty:
  assumes "b \<noteq> nilPaint" and "b \<noteq> []"
  shows "computeColorCode b f =
           Inr ((pre @ ''4'' @ string_of_byte (last b) @ ''m'') @ (pre @ f @ ''m''))"
  using assms by (simp add: computeColorCode_def post_def Let_def last_conv_nth)

lemma string_of_byte_ascii: "of_char c < (128::nat) \<Longrightarrow> string_of_byte c = [c]"
  by (simp add: string_of_byte_def)

lemma computeColorCode_total:
  "(\<exists>c. computeColorCode b f = Inr c) \<longleftrightarrow> b \<noteq> []"
proof (cases "b = nilPaint")
  case True
  then show ?thesis by (simp add: computeColorCode_sentinel nilPaint_nonempty)
next
  case False
  then show ?thesis
    by (cases "b = []") (simp_all add: computeColorCode_empty computeColorCode_nonempty)
qed

lemma split_sgr_step:
  assumes "ps \<noteq> []" and "list_all is_param ps"
  shows "split_sgr (pre @ ps @ ''m'' @ rest) =
           map_option ((#) (pre @ ps @ ''m'')) (split_sgr rest)"
proof -
  have m: "\<not> is_param CHR ''m''" by (simp add: is_param_def)
  from assms(2) have "\<forall>x\<in>set ps. is_param x" by (simp add: list_all_iff)
  with m have tw: "takeWhile is_param (ps @ CHR ''m'' # rest) = ps"
    and dw: "dropWhile is_param (ps @ CHR ''m'' # rest) = CHR ''m'' # rest"
    by (simp_all add: takeWhile_append2 dropWhile_append2)
  show ?thesis
    using assms(1) by (simp add: pre_def tw dw split: option.split)
qed

lemmas paint_defs =
  BlackPaint_def DarkRedPaint_def DarkGreenPaint_def DarkYellowPaint_def
  DarkBluePaint_def DarkPurplePaint_def DarkCyanPaint_def LightGrayPaint_def
  DarkGrayPaint_def RedPaint_def GreenPaint_def YellowPaint_def
  BluePaint_def PurplePaint_def CyanPaint_def WhitePaint_def

lemma paints_cases:
  assumes "f \<in> set paints"
  shows "f \<noteq> [] \<and> f \<noteq> nilPaint \<and> list_all is_param f \<and>
         of_char (last f) < (128::nat) \<and> hd f \<noteq> CHR ''4''"
  using assms
  unfolding paints_def paint_defs nilPaint_def is_param_def
  by auto

lemma NewStyle_Inr:
  "computeColorCode b f = Inr c \<Longrightarrow> NewStyle b f = Inr \<lparr>bg = b, fg = f, code = c\<rparr>"
  by (simp add: NewStyle_def)

lemma WithBackground_eq:
  "WithBackground s c =
     (case computeColorCode c (fg s) of
        Inl e \<Rightarrow> Inl e
      | Inr k \<Rightarrow> Inr (s\<lparr>bg := c, code := k\<rparr>))"
  by (simp add: WithBackground_def WithBackground_body_def Let_def split: sum.split)

lemma WithForeground_eq:
  "WithForeground s c =
     (case computeColorCode (bg s) c of
        Inl e \<Rightarrow> Inl e
      | Inr k \<Rightarrow> Inr (s\<lparr>fg := c, code := k\<rparr>))"
  by (simp add: WithForeground_def WithForeground_body_def Let_def split: sum.split)

lemma decimal_two_digits:
  assumes "10 \<le> n" and "n < 100"
  shows "decimal n = [digit (n div 10), digit (n mod 10)]"
proof -
  from assms(2) have "n div 10 < 10" by simp
  then have "decimal (n div 10) = [digit (n div 10)]"
    by (subst decimal.simps) simp
  with assms(1) show ?thesis
    by (subst decimal.simps) simp
qed

lemma decimal_thirties:
  assumes "h < 8"
  shows "decimal (30 + h) = [CHR ''3'', digit h]"
proof -
  from assms have "(30 + h) div 10 = 3" and "(30 + h) mod 10 = h" by presburger+
  with assms show ?thesis by (simp add: decimal_two_digits digit_def)
qed

lemma two_part_code:
  assumes "i < 2" and "h < 8" and "f = [digit i, CHR '';'', CHR ''3'', digit h]"
  shows "length f = 4 \<and> (\<exists>i h. i < 2 \<and> h < 8 \<and> f = [digit i] @ '';'' @ decimal (30 + h))"
proof -
  have "f = [digit i] @ '';'' @ decimal (30 + h)"
    using assms(2,3) by (simp add: decimal_thirties)
  with assms(1,2) have "\<exists>i h. i < 2 \<and> h < 8 \<and> f = [digit i] @ '';'' @ decimal (30 + h)"
    by blast
  with assms(3) show ?thesis by simp
qed

section \<open>The claims\<close>

text \<open>
  C1. For a background among the sentinel and the sixteen constants and a foreground
  among the sixteen constants, the brush of \<open>NewStyle b f\<close> returns, for every text
  \<open>s\<close>, a fixed prefix, then \<open>s\<close>, then the reset sequence. The prefix does not depend
  on \<open>s\<close> and reads as exactly one escape sequence, not a background one, when the
  background is the sentinel, and as exactly two otherwise (a background sequence, then
  one that is not).
\<close>

theorem brush_escape_structure:
  assumes "b \<in> set (nilPaint # paints)" and "f \<in> set paints"
  shows "\<exists>st segs.
           NewStyle b f = Inr st \<and>
           (\<forall>s. Brush st s = concat segs @ s @ reset) \<and>
           split_sgr (concat segs) = Some segs \<and>
           length segs = (if b = nilPaint then 1 else 2) \<and>
           (if b = nilPaint then \<not> list_ex is_background_seq segs
            else is_background_seq (hd segs) \<and> \<not> is_background_seq (last segs))"
proof -
  from assms(2) have f: "f \<noteq> []" "list_all is_param f" "hd f \<noteq> CHR ''4''"
    using paints_cases by blast+
  have front: "split_sgr (pre @ f @ ''m'') = Some [pre @ f @ ''m'']"
    using split_sgr_step [OF f(1,2), of "[]"] by simp
  have nobg: "\<not> is_background_seq (pre @ f @ ''m'')"
    using f(1,3) by (cases f) (simp_all add: is_background_seq_def pre_def)
  show ?thesis
  proof (cases "b = nilPaint")
    case True
    let ?st = "\<lparr>bg = b, fg = f, code = pre @ f @ ''m''\<rparr>"
    let ?segs = "[pre @ f @ ''m'']"
    have "NewStyle b f = Inr ?st"
      using True by (simp add: NewStyle_Inr computeColorCode_sentinel)
    moreover have "\<forall>s. Brush ?st s = concat ?segs @ s @ reset"
      by (simp add: Brush_def)
    moreover have "split_sgr (concat ?segs) = Some ?segs"
      using front by simp
    moreover have "\<not> list_ex is_background_seq ?segs"
      using nobg by simp
    ultimately show ?thesis
      using True by (intro exI [of _ ?st] exI [of _ ?segs]) simp
  next
    case False
    with assms(1) have bp: "b \<in> set paints" by simp
    then have b: "b \<noteq> []" "of_char (last b) < (128::nat)" "list_all is_param b"
      using paints_cases by blast+
    have lastp: "is_param (last b)"
      using b(1,3) by (simp add: list_all_iff)
    let ?bseg = "pre @ ''4'' @ [last b] @ ''m''"
    let ?fseg = "pre @ f @ ''m''"
    let ?st = "\<lparr>bg = b, fg = f, code = ?bseg @ ?fseg\<rparr>"
    let ?segs = "[?bseg, ?fseg]"
    have "computeColorCode b f = Inr (?bseg @ ?fseg)"
      using computeColorCode_nonempty [OF False b(1), of f] string_of_byte_ascii [OF b(2)]
      by simp
    then have "NewStyle b f = Inr ?st"
      by (simp add: NewStyle_Inr)
    moreover have "\<forall>s. Brush ?st s = concat ?segs @ s @ reset"
      by (simp add: Brush_def)
    moreover have "split_sgr (concat ?segs) = Some ?segs"
    proof -
      have "list_all is_param (''4'' @ [last b])"
        using lastp by (simp add: is_param_def)
      from split_sgr_step [OF _ this, of ?fseg] front
      show ?thesis by simp
    qed
    moreover have "is_background_seq ?bseg"
      by (simp add: is_background_seq_def pre_def)
    ultimately show ?thesis
      using False nobg by (intro exI [of _ ?st] exI [of _ ?segs]) simp
  qed
qed

text \<open>
  The sentinel with bright red: one sequence. Bright white with black: two, the first a
  background sequence.
\<close>

theorem brush_escape_structure_witness:
  "nilPaint \<in> set (nilPaint # paints) \<and> RedPaint \<in> set paints \<and>
   (\<exists>st segs.
      NewStyle nilPaint RedPaint = Inr st \<and>
      (\<forall>s. Brush st s = concat segs @ s @ reset) \<and>
      split_sgr (concat segs) = Some segs \<and>
      length segs = 1 \<and>
      \<not> list_ex is_background_seq segs) \<and>
   WhitePaint \<in> set (nilPaint # paints) \<and> BlackPaint \<in> set paints \<and>
   (\<exists>st segs.
      NewStyle WhitePaint BlackPaint = Inr st \<and>
      (\<forall>s. Brush st s = concat segs @ s @ reset) \<and>
      split_sgr (concat segs) = Some segs \<and>
      length segs = 2 \<and>
      is_background_seq (hd segs) \<and> \<not> is_background_seq (last segs))"
proof -
  have h1: "nilPaint \<in> set (nilPaint # paints)" by simp
  have h2: "RedPaint \<in> set paints" by (simp add: paints_def)
  have h3: "WhitePaint \<in> set (nilPaint # paints)" by (simp add: paints_def)
  have h4: "BlackPaint \<in> set paints" by (simp add: paints_def)
  have n: "WhitePaint \<noteq> nilPaint" by (simp add: WhitePaint_def nilPaint_def)
  have one: "\<exists>st segs.
      NewStyle nilPaint RedPaint = Inr st \<and>
      (\<forall>s. Brush st s = concat segs @ s @ reset) \<and>
      split_sgr (concat segs) = Some segs \<and>
      length segs = 1 \<and>
      \<not> list_ex is_background_seq segs"
    using brush_escape_structure [OF h1 h2] by simp
  have two: "\<exists>st segs.
      NewStyle WhitePaint BlackPaint = Inr st \<and>
      (\<forall>s. Brush st s = concat segs @ s @ reset) \<and>
      split_sgr (concat segs) = Some segs \<and>
      length segs = 2 \<and>
      is_background_seq (hd segs) \<and> \<not> is_background_seq (last segs)"
    using brush_escape_structure [OF h3 h4] n by simp
  from h1 h2 h3 h4 one two show ?thesis by blast
qed

text \<open>
  C2 (as amended). For a background that is neither the sentinel nor the empty string,
  and any foreground, the code is the background segment \<open>ESC[4<hue>m\<close> immediately
  followed by the foreground segment \<open>ESC[<fg>m\<close>, where \<open><hue>\<close> is Go's string
  conversion of the background's last byte: that byte itself when it is below 0x80 (as
  for all sixteen constants), and two bytes otherwise.
\<close>

theorem computeColorCode_background_segment:
  assumes "b \<noteq> nilPaint" and "b \<noteq> []"
  shows "computeColorCode b f =
           Inr ((pre @ ''4'' @ string_of_byte (last b) @ ''m'') @ (pre @ f @ ''m'')) \<and>
         (if of_char (last b) < (128::nat) then string_of_byte (last b) = [last b]
          else length (string_of_byte (last b)) = 2)"
  using computeColorCode_nonempty [OF assms]
  by (simp add: string_of_byte_def Let_def)

text \<open>White behind black: the hue is the byte \<open>7\<close>.\<close>

theorem computeColorCode_background_segment_witness:
  "WhitePaint \<noteq> nilPaint \<and> WhitePaint \<noteq> [] \<and>
   computeColorCode WhitePaint BlackPaint =
     Inr ((pre @ ''4'' @ string_of_byte (last WhitePaint) @ ''m'') @ (pre @ BlackPaint @ ''m'')) \<and>
   string_of_byte (last WhitePaint) = ''7''"
proof -
  have h1: "WhitePaint \<noteq> nilPaint" by (simp add: WhitePaint_def nilPaint_def)
  have h2: "WhitePaint \<noteq> []" by (simp add: WhitePaint_def)
  have "last WhitePaint = CHR ''7''" by (simp add: WhitePaint_def)
  then show ?thesis
    using computeColorCode_background_segment [OF h1 h2, of BlackPaint] h1 h2 by simp
qed

text \<open>
  For the empty background the index panics and no code is computed; for a background
  ending in the byte 0xFF the segment holds the two bytes 0xC3 0xBF, not that byte.
\<close>

theorem computeColorCode_background_segment_counterexample:
  "[] \<noteq> nilPaint \<and> computeColorCode [] BlackPaint = Inl IndexOutOfRange \<and>
   [CHR 0xFF] \<noteq> nilPaint \<and>
   computeColorCode [CHR 0xFF] BlackPaint =
     Inr ((pre @ ''4'' @ [CHR 0xC3, CHR 0xBF] @ ''m'') @ (pre @ BlackPaint @ ''m'')) \<and>
   computeColorCode [CHR 0xFF] BlackPaint \<noteq>
     Inr ((pre @ ''4'' @ [last [CHR 0xFF]] @ ''m'') @ (pre @ BlackPaint @ ''m''))"
proof -
  have e: "string_of_byte (CHR 0xFF) = [CHR 0xC3, CHR 0xBF]" by code_simp
  have n: "[CHR 0xFF] \<noteq> nilPaint" by (simp add: nilPaint_def)
  have "computeColorCode [CHR 0xFF] BlackPaint =
     Inr ((pre @ ''4'' @ [CHR 0xC3, CHR 0xBF] @ ''m'') @ (pre @ BlackPaint @ ''m''))"
    using computeColorCode_nonempty [OF n, of BlackPaint] e by simp
  then show ?thesis
    using n by (simp add: computeColorCode_empty nilPaint_def)
qed

text \<open>
  C3 (as amended). With a background that is not the empty string, and any foreground,
  \<open>NewStyle\<close>, \<open>NewBrush\<close>, \<open>WithBackground\<close> and \<open>WithForeground\<close> (on a style
  with such a background) return a value; \<open>Brush\<close> and the application of a brush
  return a value for every style and every text.
\<close>

theorem operations_total:
  assumes "b \<noteq> []"
  shows "(\<exists>st. NewStyle b f = Inr st) \<and>
         (\<exists>br. NewBrush b f = Inr br) \<and>
         (\<exists>t. WithBackground s b = Inr t) \<and>
         (\<exists>t. WithForeground \<lparr>bg = b, fg = g, code = c\<rparr> f = Inr t) \<and>
         (\<exists>out. paint (Inr (Brush s)) text = Inr out)"
proof -
  from assms obtain k where k: "computeColorCode b f = Inr k"
    using computeColorCode_total by blast
  from assms obtain k' where k': "computeColorCode b (fg s) = Inr k'"
    using computeColorCode_total by blast
  have "\<exists>st. NewStyle b f = Inr st" using k by (simp add: NewStyle_def)
  moreover have "\<exists>br. NewBrush b f = Inr br" using k by (simp add: NewBrush_def NewStyle_def)
  moreover have "\<exists>t. WithBackground s b = Inr t" using k' by (simp add: WithBackground_eq)
  moreover have "\<exists>t. WithForeground \<lparr>bg = b, fg = g, code = c\<rparr> f = Inr t"
    using k by (simp add: WithForeground_eq)
  moreover have "\<exists>out. paint (Inr (Brush s)) text = Inr out" by (simp add: paint_def)
  ultimately show ?thesis by blast
qed

text \<open>The operations at bright red, yellow and green.\<close>

theorem operations_total_witness:
  "RedPaint \<noteq> [] \<and>
   (\<exists>st. NewStyle RedPaint YellowPaint = Inr st) \<and>
   (\<exists>br. NewBrush RedPaint YellowPaint = Inr br) \<and>
   (\<exists>t. WithBackground \<lparr>bg = nilPaint, fg = GreenPaint, code = []\<rparr> RedPaint = Inr t) \<and>
   (\<exists>t. WithForeground \<lparr>bg = RedPaint, fg = GreenPaint, code = []\<rparr> YellowPaint = Inr t) \<and>
   (\<exists>out. paint (Inr (Brush \<lparr>bg = nilPaint, fg = GreenPaint, code = []\<rparr>)) ''x'' = Inr out)"
proof -
  have h: "RedPaint \<noteq> []" by (simp add: RedPaint_def)
  show ?thesis
    using operations_total [OF h, of YellowPaint "\<lparr>bg = nilPaint, fg = GreenPaint, code = []\<rparr>" GreenPaint "[]" "''x''"] h
    by simp
qed

text \<open>With the empty string as background the index is out of range.\<close>

theorem operations_total_counterexample:
  "NewStyle [] RedPaint = Inl IndexOutOfRange \<and>
   NewBrush [] RedPaint = Inl IndexOutOfRange \<and>
   paint (NewBrush [] RedPaint) ''x'' = Inl IndexOutOfRange \<and>
   WithBackground \<lparr>bg = nilPaint, fg = RedPaint, code = pre @ RedPaint @ ''m''\<rparr> [] = Inl IndexOutOfRange \<and>
   WithForeground \<lparr>bg = [], fg = [], code = []\<rparr> RedPaint = Inl IndexOutOfRange"
  by (simp add: NewStyle_def NewBrush_def paint_def WithBackground_eq WithForeground_eq
      computeColorCode_empty)

text \<open>
  C4 (as amended). For each of the sixteen constants as foreground and the sentinel as
  background, the code is \<open>ESC[\<close>, the foreground's code string, \<open>m\<close>; the code string
  has four characters: the intensity \<open>0\<close> or \<open>1\<close>, a semicolon, and the decimal
  number \<open>30 + h\<close> for a hue \<open>h\<close> from 0 to 7.
\<close>

theorem sentinel_foreground_code:
  assumes "f \<in> set paints"
  shows "computeColorCode nilPaint f = Inr (pre @ f @ ''m'') \<and>
         length f = 4 \<and>
         (\<exists>i h. i < 2 \<and> h < 8 \<and> f = [digit i] @ '';'' @ decimal (30 + h))"
proof -
  from assms consider
      "f = BlackPaint" | "f = DarkRedPaint" | "f = DarkGreenPaint" | "f = DarkYellowPaint"
    | "f = DarkBluePaint" | "f = DarkPurplePaint" | "f = DarkCyanPaint" | "f = LightGrayPaint"
    | "f = DarkGrayPaint" | "f = RedPaint" | "f = GreenPaint" | "f = YellowPaint"
    | "f = BluePaint" | "f = PurplePaint" | "f = CyanPaint" | "f = WhitePaint"
    unfolding paints_def by auto
  then have "length f = 4 \<and> (\<exists>i h. i < 2 \<and> h < 8 \<and> f = [digit i] @ '';'' @ decimal (30 + h))"
  proof cases
    case 1
    then show ?thesis
      by (intro two_part_code [of 0 0]) (simp_all add: BlackPaint_def digit_def)
  next
    case 2
    then show ?thesis
      by (intro two_part_code [of 0 1]) (simp_all add: DarkRedPaint_def digit_def)
  next
    case 3
    then show ?thesis
      by (intro two_part_code [of 0 2]) (simp_all add: DarkGreenPaint_def digit_def)
  next
    case 4
    then show ?thesis
      by (intro two_part_code [of 0 3]) (simp_all add: DarkYellowPaint_def digit_def)
  next
    case 5
    then show ?thesis
      by (intro two_part_code [of 0 4]) (simp_all add: DarkBluePaint_def digit_def)
  next
    case 6
    then show ?thesis
      by (intro two_part_code [of 0 5]) (simp_all add: DarkPurplePaint_def digit_def)
  next
    case 7
    then show ?thesis
      by (intro two_part_code [of 0 6]) (simp_all add: DarkCyanPaint_def digit_def)
  next
    case 8
    then show ?thesis
      by (intro two_part_code [of 0 7]) (simp_all add: LightGrayPaint_def digit_def)
  next
    case 9
    then show ?thesis
      by (intro two_part_code [of 1 0]) (simp_all add: DarkGrayPaint_def digit_def)
  next
    case 10
    then show ?thesis
      by (intro two_part_code [of 1 1]) (simp_all add: RedPaint_def digit_def)
  next
    case 11
    then show ?thesis
      by (intro two_part_code [of 1 2]) (simp_all add: GreenPaint_def digit_def)
  next
    case 12
    then show ?thesis
      by (intro two_part_code [of 1 3]) (simp_all add: YellowPaint_def digit_def)
  next
    case 13
    then show ?thesis
      by (intro two_part_code [of 1 4]) (simp_all add: BluePaint_def digit_def)
  next
    case 14
    then show ?thesis
      by (intro two_part_code [of 1 5]) (simp_all add: PurplePaint_def digit_def)
  next
    case 15
    then show ?thesis
      by (intro two_part_code [of 1 6]) (simp_all add: CyanPaint_def digit_def)
  next
    case 16
    then show ?thesis
      by (intro two_part_code [of 1 7]) (simp_all add: WhitePaint_def digit_def)
  qed
  then show ?thesis by (simp add: computeColorCode_sentinel)
qed

text \<open>Bright red is \<open>1;31\<close>.\<close>

theorem sentinel_foreground_code_witness:
  "RedPaint \<in> set paints \<and>
   computeColorCode nilPaint RedPaint = Inr (pre @ RedPaint @ ''m'') \<and>
   length RedPaint = 4 \<and>
   (\<exists>i h. i < 2 \<and> h < 8 \<and> RedPaint = [digit i] @ '';'' @ decimal (30 + h))"
proof -
  have h: "RedPaint \<in> set paints" by (simp add: paints_def)
  show ?thesis using sentinel_foreground_code [OF h] h by simp
qed

text \<open>The code string of black has four characters, not two.\<close>

theorem sentinel_foreground_code_counterexample:
  "BlackPaint \<in> set paints \<and>
   computeColorCode nilPaint BlackPaint = Inr (pre @ BlackPaint @ ''m'') \<and>
   length BlackPaint \<noteq> 2"
  by (simp add: paints_def computeColorCode_sentinel) (simp add: BlackPaint_def)

text \<open>
  C5. Every style reachable from \<open>NewStyle\<close> through \<open>WithBackground\<close> and
  \<open>WithForeground\<close> stores, as its code, the result of \<open>computeColorCode\<close> on its own
  background and foreground.
\<close>

theorem reachable_code_invariant:
  assumes "reachable s"
  shows "computeColorCode (bg s) (fg s) = Inr (code s)"
  using assms
proof (induction rule: reachable.induct)
  case (new background foreground s)
  then show ?case
    by (auto simp: NewStyle_def split: sum.splits)
next
  case (with_bg s color t)
  from with_bg.hyps(2) show ?case
    by (auto simp: WithBackground_eq split: sum.splits)
next
  case (with_fg s color t)
  from with_fg.hyps(2) show ?case
    by (auto simp: WithForeground_eq split: sum.splits)
qed

text \<open>The style built by \<open>NewStyle\<close> from bright red and yellow, then given a green foreground.\<close>

theorem reachable_code_invariant_witness:
  "reachable \<lparr>bg = RedPaint, fg = GreenPaint, code = (pre @ ''41m'') @ (pre @ ''1;32m'')\<rparr> \<and>
   computeColorCode RedPaint GreenPaint = Inr ((pre @ ''41m'') @ (pre @ ''1;32m''))"
proof -
  have n: "RedPaint \<noteq> nilPaint" "RedPaint \<noteq> []" "last RedPaint = CHR ''1''"
    by (simp_all add: RedPaint_def nilPaint_def)
  have one: "string_of_byte CHR ''1'' = ''1''"
    by (simp add: string_of_byte_def)
  have c1: "computeColorCode RedPaint YellowPaint = Inr ((pre @ ''41m'') @ (pre @ ''1;33m''))"
    using computeColorCode_nonempty [OF n(1,2), of YellowPaint] n(3) one
    by (simp add: YellowPaint_def)
  have c2: "computeColorCode RedPaint GreenPaint = Inr ((pre @ ''41m'') @ (pre @ ''1;32m''))"
    using computeColorCode_nonempty [OF n(1,2), of GreenPaint] n(3) one
    by (simp add: GreenPaint_def)
  have "reachable \<lparr>bg = RedPaint, fg = YellowPaint, code = (pre @ ''41m'') @ (pre @ ''1;33m'')\<rparr>"
    by (rule reachable.new [of RedPaint YellowPaint]) (simp add: NewStyle_def c1)
  then have r: "reachable \<lparr>bg = RedPaint, fg = GreenPaint, code = (pre @ ''41m'') @ (pre @ ''1;32m'')\<rparr>"
    by (rule reachable.with_fg [where color = GreenPaint]) (simp add: WithForeground_eq c2)
  from reachable_code_invariant [OF r] r show ?thesis by simp
qed

text \<open>
  C6. When \<open>WithForeground\<close> or \<open>WithBackground\<close> returns, the receiver holds the value
  it held before the call (background, foreground and code); the returned style is the
  local copy, which carries the replacement and keeps the other color.
\<close>

theorem updaters_leave_receiver_unchanged:
  "(\<forall>f. WithForeground_body s c = Inr f \<longrightarrow>
        s_var f = s \<and> WithForeground s c = Inr (newS_var f) \<and>
        fg (newS_var f) = c \<and> bg (newS_var f) = bg s) \<and>
   (\<forall>f. WithBackground_body s c = Inr f \<longrightarrow>
        s_var f = s \<and> WithBackground s c = Inr (newS_var f) \<and>
        bg (newS_var f) = c \<and> fg (newS_var f) = fg s)"
  by (auto simp: WithForeground_def WithBackground_def WithForeground_body_def
      WithBackground_body_def Let_def split: sum.splits)

text \<open>Both updaters on the bright red style with no background.\<close>

theorem updaters_leave_receiver_unchanged_witness:
  "WithForeground_body \<lparr>bg = nilPaint, fg = RedPaint, code = pre @ ''1;31m''\<rparr> GreenPaint =
     Inr \<lparr>s_var = \<lparr>bg = nilPaint, fg = RedPaint, code = pre @ ''1;31m''\<rparr>,
          newS_var = \<lparr>bg = nilPaint, fg = GreenPaint, code = pre @ ''1;32m''\<rparr>\<rparr> \<and>
   WithForeground \<lparr>bg = nilPaint, fg = RedPaint, code = pre @ ''1;31m''\<rparr> GreenPaint =
     Inr \<lparr>bg = nilPaint, fg = GreenPaint, code = pre @ ''1;32m''\<rparr> \<and>
   WithBackground_body \<lparr>bg = nilPaint, fg = RedPaint, code = pre @ ''1;31m''\<rparr> GreenPaint =
     Inr \<lparr>s_var = \<lparr>bg = nilPaint, fg = RedPaint, code = pre @ ''1;31m''\<rparr>,
          newS_var = \<lparr>bg = GreenPaint, fg = RedPaint,
                      code = (pre @ ''42m'') @ (pre @ ''1;31m'')\<rparr>\<rparr> \<and>
   WithBackground \<lparr>bg = nilPaint, fg = RedPaint, code = pre @ ''1;31m''\<rparr> GreenPaint =
     Inr \<lparr>bg = GreenPaint, fg = RedPaint, code = (pre @ ''42m'') @ (pre @ ''1;31m'')\<rparr>"
proof -
  let ?s = "\<lparr>bg = nilPaint, fg = RedPaint, code = pre @ ''1;31m''\<rparr>"
  have g: "GreenPaint \<noteq> nilPaint" "GreenPaint \<noteq> []" "last GreenPaint = CHR ''2''"
    by (simp_all add: GreenPaint_def nilPaint_def)
  have two: "string_of_byte CHR ''2'' = ''2''"
    by (simp add: string_of_byte_def)
  have cb: "computeColorCode GreenPaint RedPaint = Inr ((pre @ ''42m'') @ (pre @ ''1;31m''))"
    using computeColorCode_nonempty [OF g(1,2), of RedPaint] g(3) two
    by (simp add: RedPaint_def)
  have cf: "computeColorCode nilPaint GreenPaint = Inr (pre @ ''1;32m'')"
    by (simp add: computeColorCode_sentinel GreenPaint_def)
  have f: "WithForeground_body ?s GreenPaint =
      Inr \<lparr>s_var = ?s, newS_var = \<lparr>bg = nilPaint, fg = GreenPaint, code = pre @ ''1;32m''\<rparr>\<rparr>"
    by (simp add: WithForeground_body_def cf)
  have b: "WithBackground_body ?s GreenPaint =
      Inr \<lparr>s_var = ?s, newS_var = \<lparr>bg = GreenPaint, fg = RedPaint,
        code = (pre @ ''42m'') @ (pre @ ''1;31m'')\<rparr>\<rparr>"
    by (simp add: WithBackground_body_def cb)
  from updaters_leave_receiver_unchanged [of ?s GreenPaint] f b
  show ?thesis by simp
qed

text \<open>
  C7. Setting the foreground to \<open>x\<close> and then to \<open>y\<close> gives the code of
  \<open>NewStyle (bg s) y\<close>: the two sides agree as results, both panicking when the
  background of \<open>s\<close> is the empty string and both returning the same code otherwise.
\<close>

theorem WithForeground_twice:
  "map_sum id code
     (case WithForeground s x of Inl e \<Rightarrow> Inl e | Inr t \<Rightarrow> WithForeground t y) =
   map_sum id code (NewStyle (bg s) y) \<and>
   (if bg s = [] then NewStyle (bg s) y = Inl IndexOutOfRange
    else \<exists>c. map_sum id code (NewStyle (bg s) y) = Inr c)"
proof (cases "bg s = []")
  case True
  then show ?thesis
    by (simp add: WithForeground_eq NewStyle_def computeColorCode_empty)
next
  case False
  from False obtain k1 where k1: "computeColorCode (bg s) x = Inr k1"
    using computeColorCode_total [of "bg s" x] by blast
  from False obtain k2 where k2: "computeColorCode (bg s) y = Inr k2"
    using computeColorCode_total [of "bg s" y] by blast
  have step1: "WithForeground s x = Inr (s\<lparr>fg := x, code := k1\<rparr>)"
    by (simp add: WithForeground_eq k1)
  have step2: "WithForeground (s\<lparr>fg := x, code := k1\<rparr>) y = Inr (s\<lparr>fg := y, code := k2\<rparr>)"
    by (simp add: WithForeground_eq k2)
  have new: "NewStyle (bg s) y = Inr \<lparr>bg = bg s, fg = y, code = k2\<rparr>"
    by (simp add: NewStyle_def k2)
  show ?thesis
    using False by (simp add: step1 step2 new)
qed

text \<open>
  C8. The brush of the sentinel background and the bright red foreground, applied to
  \<open>red\<close>, returns \<open>ESC[1;31mredESC[0m\<close>; \<open>Red\<close> is that brush.
\<close>

theorem Red_brush_example:
  "paint (NewBrush nilPaint RedPaint) ''red'' = Inr (CHR 0x1B # ''[1;31mred'' @ CHR 0x1B # ''[0m'') \<and>
   paint Red ''red'' = Inr (CHR 0x1B # ''[1;31mred'' @ CHR 0x1B # ''[0m'')"
  by (simp add: Red_def paint_def NewBrush_def NewStyle_def computeColorCode_sentinel Brush_def
      pre_def reset_def RedPaint_def)

text \<open>
  C9. \<open>Black\<close> is the brush of the bright white background \<open>1;37\<close> and the black
  foreground \<open>0;30\<close>; applied to \<open>x\<close> it returns \<open>ESC[47mESC[0;30mxESC[0m\<close>.
\<close>

theorem Black_brush_example:
  "Black = NewBrush WhitePaint BlackPaint \<and>
   NewStyle WhitePaint BlackPaint =
     Inr \<lparr>bg = ''1;37'', fg = ''0;30'', code = CHR 0x1B # ''[47m'' @ CHR 0x1B # ''[0;30m''\<rparr> \<and>
   paint Black ''x'' = paint (NewBrush WhitePaint BlackPaint) ''x'' \<and>
   paint (NewBrush WhitePaint BlackPaint) ''x'' =
     Inr (CHR 0x1B # ''[47m'' @ CHR 0x1B # ''[0;30mx'' @ CHR 0x1B # ''[0m'')"
proof -
  have n: "WhitePaint \<noteq> nilPaint" "WhitePaint \<noteq> []" "last WhitePaint = CHR ''7''"
    by (simp_all add: WhitePaint_def nilPaint_def)
  have seven: "string_of_byte CHR ''7'' = ''7''"
    by (simp add: string_of_byte_def)
  have c: "computeColorCode WhitePaint BlackPaint = Inr (CHR 0x1B # ''[47m'' @ CHR 0x1B # ''[0;30m'')"
    using computeColorCode_nonempty [OF n(1,2), of BlackPaint] n(3) seven
    by (simp add: pre_def BlackPaint_def)
  show ?thesis
    by (simp add: Black_def paint_def NewBrush_def NewStyle_def c Brush_def reset_def)
      (simp add: WhitePaint_def BlackPaint_def)
qed

text \<open>
  C10. Two backgrounds, neither the sentinel nor empty, that end in the same byte (in
  particular in the same hue digit) give, with the same foreground, the same code: the
  intensity of a background has no effect.
\<close>

theorem background_intensity_ignored:
  assumes "b1 \<noteq> nilPaint" and "b2 \<noteq> nilPaint"
    and "b1 \<noteq> []" and "b2 \<noteq> []"
    and "last b1 = last b2"
  shows "computeColorCode b1 f = computeColorCode b2 f \<and>
         (\<exists>c. computeColorCode b1 f = Inr c)"
  using computeColorCode_nonempty [OF assms(1,3), of f]
    computeColorCode_nonempty [OF assms(2,4), of f] assms(5)
  by simp

text \<open>White and light gray, two different paints, both end in \<open>7\<close>.\<close>

theorem background_intensity_ignored_witness:
  "WhitePaint \<noteq> nilPaint \<and> LightGrayPaint \<noteq> nilPaint \<and>
   WhitePaint \<noteq> [] \<and> LightGrayPaint \<noteq> [] \<and>
   last WhitePaint = last LightGrayPaint \<and>
   WhitePaint \<noteq> LightGrayPaint \<and>
   computeColorCode WhitePaint RedPaint = computeColorCode LightGrayPaint RedPaint \<and>
   (\<exists>c. computeColorCode WhitePaint RedPaint = Inr c)"
proof -
  have h: "WhitePaint \<noteq> nilPaint" "LightGrayPaint \<noteq> nilPaint"
    "WhitePaint \<noteq> []" "LightGrayPaint \<noteq> []" "last WhitePaint = last LightGrayPaint"
    "WhitePaint \<noteq> LightGrayPaint"
    by (simp_all add: WhitePaint_def LightGrayPaint_def nilPaint_def)
  from background_intensity_ignored [OF h(1-5), of RedPaint] h show ?thesis by blast
qed

end
